theory Spec2Isabelle
  imports Main
begin

section \<open>The generated header GeneratedAssetSymbols.h\<close>

text \<open>
  The whole source is one generated Objective-C header of twelve lines:
  \<^verbatim>\<open>
   1  #import <Foundation/Foundation.h>
   2
   3  #if __has_attribute(swift_private)
   4  #define AC_SWIFT_PRIVATE __attribute__((swift_private))
   5  #else
   6  #define AC_SWIFT_PRIVATE
   7  #endif
   8
   9  /// The "HighlanderLogo" asset catalog image resource.
  10  static NSString * const ACImageNameHighlanderLogo AC_SWIFT_PRIVATE = @"HighlanderLogo";
  11
  12  #undef AC_SWIFT_PRIVATE
  \<close>
  It has no functions, so what there is to run is the preprocessor over these lines:
  a conditional group, two alternative definitions of one object-like macro, one
  declaration in which the macro is expanded, and the removal of the macro. The header
  is embedded line by line, the preprocessor as a state-passing function over the lines,
  and the one declaration is read back from the expanded tokens.
\<close>

subsection \<open>Tokens and lines\<close>

datatype token =
    Ident string      \<comment> \<open>identifier or keyword\<close>
  | Punct string      \<comment> \<open>punctuator\<close>
  | StrLit string     \<comment> \<open>Objective-C string literal \<open>@"..."\<close>, without the quotes\<close>

datatype line =
    Import string                 \<comment> \<open>\<open>#import <file>\<close>\<close>
  | IfHasAttribute string         \<comment> \<open>\<open>#if __has_attribute(name)\<close>\<close>
  | Define string "token list"    \<comment> \<open>\<open>#define NAME replacement\<close>\<close>
  | Else                          \<comment> \<open>\<open>#else\<close>\<close>
  | Endif                         \<comment> \<open>\<open>#endif\<close>\<close>
  | Undef string                  \<comment> \<open>\<open>#undef NAME\<close>\<close>
  | Blank                         \<comment> \<open>empty line\<close>
  | DocComment string             \<comment> \<open>\<open>/// text\<close>\<close>
  | Text "token list"             \<comment> \<open>any line that is not a directive\<close>

definition swift_private_attribute :: "token list" where
  "swift_private_attribute =
     [Ident ''__attribute__'', Punct ''('', Punct ''('', Ident ''swift_private'',
      Punct '')'', Punct '')'']"

definition declaration_line :: "token list" where
  "declaration_line =
     [Ident ''static'', Ident ''NSString'', Punct ''*'', Ident ''const'',
      Ident ''ACImageNameHighlanderLogo'', Ident ''AC_SWIFT_PRIVATE'',
      Punct ''='', StrLit ''HighlanderLogo'', Punct '';'']"

definition doc_comment :: string where
  "doc_comment =
     ''The '' @ [CHR 0x22] @ ''HighlanderLogo'' @ [CHR 0x22] @ '' asset catalog image resource.''"

definition GeneratedAssetSymbols :: "line list" where
  "GeneratedAssetSymbols =
     [Import ''Foundation/Foundation.h'',
      Blank,
      IfHasAttribute ''swift_private'',
      Define ''AC_SWIFT_PRIVATE'' swift_private_attribute,
      Else,
      Define ''AC_SWIFT_PRIVATE'' [],
      Endif,
      Blank,
      DocComment doc_comment,
      Text declaration_line,
      Blank,
      Undef ''AC_SWIFT_PRIVATE'']"

subsection \<open>The preprocessor\<close>

text \<open>
  A compilation is fixed by three things the header does not contain: the answers of the
  compiler's builtin \<open>__has_attribute\<close> (the header uses it unguarded, so it is
  written for compilers that have it), what the imported file does to the macro table
  (Foundation is not part of the source, so its effect is a parameter), and the macros
  already defined where the header is included.
\<close>

type_synonym macros = "string \<rightharpoonup> token list"

record compilation =
  has_attribute :: "string \<Rightarrow> bool"
  imported :: "string \<Rightarrow> macros \<Rightarrow> macros"
  predefined :: macros

text \<open>
  One frame per open \<open>#if\<close>: whether the group being read is the one selected, and
  whether its \<open>#else\<close> has been seen. A line is live when every open group is selected.
\<close>

datatype frame = Frame bool bool

fun selected :: "frame \<Rightarrow> bool" where
  "selected (Frame b e) = b"

record pp_state =
  macro_table :: macros
  open_groups :: "frame list"
  imported_files :: "string list"
  emitted :: "token list list"

datatype pp_error = ElseWithoutIf | ElseAfterElse | EndifWithoutIf | UnterminatedIf

definition live :: "pp_state \<Rightarrow> bool" where
  "live s = list_all selected (open_groups s)"

text \<open>
  Expansion of object-like macros in a text line: an identifier that names a macro is
  replaced by the macro's replacement list, every other token is kept. A \<open>#define\<close> of
  a name that is already a macro replaces its definition, and directives in a group that
  is not selected are skipped.
\<close>

fun expand_token :: "macros \<Rightarrow> token \<Rightarrow> token list" where
  "expand_token m (Ident x) = (case m x of None \<Rightarrow> [Ident x] | Some body \<Rightarrow> body)"
| "expand_token m t = [t]"

definition expand :: "macros \<Rightarrow> token list \<Rightarrow> token list" where
  "expand m ts = concat (map (expand_token m) ts)"

fun pp_line :: "compilation \<Rightarrow> pp_state \<Rightarrow> line \<Rightarrow> pp_error + pp_state" where
  "pp_line c s (Import f) =
     Inr (if live s
          then s\<lparr>macro_table := imported c f (macro_table s), imported_files := imported_files s @ [f]\<rparr>
          else s)"
| "pp_line c s (IfHasAttribute a) =
     Inr (s\<lparr>open_groups := Frame (has_attribute c a) False # open_groups s\<rparr>)"
| "pp_line c s (Define n body) =
     Inr (if live s then s\<lparr>macro_table := (macro_table s)(n \<mapsto> body)\<rparr> else s)"
| "pp_line c s Else =
     (case open_groups s of
        [] \<Rightarrow> Inl ElseWithoutIf
      | Frame b e # fs \<Rightarrow>
          if e then Inl ElseAfterElse
          else Inr (s\<lparr>open_groups := Frame (\<not> b) True # fs\<rparr>))"
| "pp_line c s Endif =
     (case open_groups s of
        [] \<Rightarrow> Inl EndifWithoutIf
      | f # fs \<Rightarrow> Inr (s\<lparr>open_groups := fs\<rparr>))"
| "pp_line c s (Undef n) =
     Inr (if live s then s\<lparr>macro_table := (macro_table s)(n := None)\<rparr> else s)"
| "pp_line c s Blank = Inr s"
| "pp_line c s (DocComment d) = Inr s"
| "pp_line c s (Text ts) =
     Inr (if live s then s\<lparr>emitted := emitted s @ [expand (macro_table s) ts]\<rparr> else s)"

text \<open>
  \<open>run\<close> reads lines in order and stops at the first error; at the end of the file
  every \<open>#if\<close> must have been closed.
\<close>

fun run :: "compilation \<Rightarrow> pp_state \<Rightarrow> line list \<Rightarrow> pp_error + pp_state" where
  "run c s [] = Inr s"
| "run c s (l # ls) =
     (case pp_line c s l of Inl e \<Rightarrow> Inl e | Inr s' \<Rightarrow> run c s' ls)"

definition initial :: "compilation \<Rightarrow> pp_state" where
  "initial c = \<lparr>macro_table = predefined c, open_groups = [], imported_files = [], emitted = []\<rparr>"

definition preprocess :: "compilation \<Rightarrow> line list \<Rightarrow> pp_error + pp_state" where
  "preprocess c ls =
     (case run c (initial c) ls of
        Inl e \<Rightarrow> Inl e
      | Inr s \<Rightarrow> if open_groups s = [] then Inr s else Inl UnterminatedIf)"

subsection \<open>Reading the declaration\<close>

text \<open>
  The expanded line is read as a file-scope declaration of a pointer with an initialiser:
  \<^verbatim>\<open>[static|extern] T * [const] name {__attribute__((a))} = @"..." ;\<close>
  (or \<open>= nil ;\<close>). The value of the pointer is \<open>None\<close> for \<open>nil\<close> and \<open>Some s\<close> for the
  string object a literal \<open>@"s"\<close> denotes.
\<close>

datatype storage_class = Static | Extern | Unspecified

record decl =
  storage :: storage_class
  type_name :: string
  const_pointer :: bool
  declared_name :: string
  attributes :: "string list"
  initial_value :: "string option"

fun parse_storage :: "token list \<Rightarrow> storage_class \<times> token list" where
  "parse_storage (Ident x # ts) =
     (if x = ''static'' then (Static, ts)
      else if x = ''extern'' then (Extern, ts)
      else (Unspecified, Ident x # ts))"
| "parse_storage ts = (Unspecified, ts)"

fun parse_const :: "token list \<Rightarrow> bool \<times> token list" where
  "parse_const (Ident x # ts) = (if x = ''const'' then (True, ts) else (False, Ident x # ts))"
| "parse_const ts = (False, ts)"

fun parse_attributes :: "token list \<Rightarrow> string list \<times> token list" where
  "parse_attributes (Ident k # Punct p # Punct q # Ident a # Punct r # Punct u # ts) =
     (if k = ''__attribute__'' \<and> p = ''('' \<and> q = ''('' \<and> r = '')'' \<and> u = '')''
      then (case parse_attributes ts of (as, rest) \<Rightarrow> (a # as, rest))
      else ([], Ident k # Punct p # Punct q # Ident a # Punct r # Punct u # ts))"
| "parse_attributes ts = ([], ts)"

fun parse_initializer :: "token list \<Rightarrow> string option option" where
  "parse_initializer [Punct e, StrLit v, Punct z] =
     (if e = ''='' \<and> z = '';'' then Some (Some v) else None)"
| "parse_initializer [Punct e, Ident n, Punct z] =
     (if e = ''='' \<and> n = ''nil'' \<and> z = '';'' then Some None else None)"
| "parse_initializer ts = None"

definition parse_declaration :: "token list \<Rightarrow> decl option" where
  "parse_declaration ts =
     (case parse_storage ts of
        (sc, Ident ty # Punct star # ts1) \<Rightarrow>
          if star = ''*'' then
            (case parse_const ts1 of
               (cq, Ident n # ts2) \<Rightarrow>
                 (case parse_attributes ts2 of
                    (as, ts3) \<Rightarrow>
                      (case parse_initializer ts3 of
                         Some v \<Rightarrow>
                           Some \<lparr>storage = sc, type_name = ty, const_pointer = cq,
                                 declared_name = n, attributes = as, initial_value = v\<rparr>
                       | None \<Rightarrow> None))
             | _ \<Rightarrow> None)
          else None
      | _ \<Rightarrow> None)"

datatype error =
    Preprocessor pp_error | Syntax "token list" | Undeclared string | Redefinition string

fun parse_all :: "token list list \<Rightarrow> error + decl list" where
  "parse_all [] = Inr []"
| "parse_all (ts # tss) =
     (case parse_declaration ts of
        None \<Rightarrow> Inl (Syntax ts)
      | Some d \<Rightarrow> (case parse_all tss of Inl e \<Rightarrow> Inl e | Inr ds \<Rightarrow> Inr (d # ds)))"

definition compile :: "compilation \<Rightarrow> line list \<Rightarrow> error + decl list" where
  "compile c ls =
     (case preprocess c ls of
        Inl e \<Rightarrow> Inl (Preprocessor e)
      | Inr s \<Rightarrow> parse_all (emitted s))"

text \<open>The value a translation unit sees under a name after including the lines.\<close>

definition value_of :: "compilation \<Rightarrow> line list \<Rightarrow> string \<Rightarrow> error + string option" where
  "value_of c ls n =
     (case compile c ls of
        Inl e \<Rightarrow> Inl e
      | Inr ds \<Rightarrow>
          (case find (\<lambda>d. declared_name d = n) ds of
             None \<Rightarrow> Inl (Undeclared n)
           | Some d \<Rightarrow> Inr (initial_value d)))"

text \<open>
  The generator writes the catalog's name of the resource into the documentation comment,
  between double quotes; \<open>quoted\<close> reads it back.
\<close>

definition quoted :: "string \<Rightarrow> string" where
  "quoted s = takeWhile (\<lambda>ch. ch \<noteq> CHR 0x22) (drop 1 (dropWhile (\<lambda>ch. ch \<noteq> CHR 0x22) s))"

definition resource_name :: string where
  "resource_name = quoted doc_comment"

text \<open>
  Replacement lists are not rescanned by \<open>expand\<close>, and every identifier of a text line
  is subject to expansion. The statements below are therefore about compilations in which,
  after the import, none of the identifiers of line 10 or of the macro's replacement list
  is itself a macro (\<open>AC_SWIFT_PRIVATE\<close> apart, which lines 4 and 6 define anyway).
\<close>

definition identifiers :: "string list" where
  "identifiers =
     [''static'', ''NSString'', ''const'', ''ACImageNameHighlanderLogo'',
      ''__attribute__'', ''swift_private'']"

definition undisturbed :: "compilation \<Rightarrow> bool" where
  "undisturbed c =
     list_all (\<lambda>x. imported c ''Foundation/Foundation.h'' (predefined c) x = None) identifiers"

text \<open>A compiler on its own: nothing predefined, an import that defines no macro.\<close>

definition standalone :: "bool \<Rightarrow> compilation" where
  "standalone b =
     \<lparr>has_attribute = (\<lambda>a. a = ''swift_private'' \<and> b), imported = (\<lambda>f m. m),
      predefined = Map.empty\<rparr>"

text \<open>
  The macro table as the header's first line leaves it, the replacement list that lines
  3 to 7 select, and the state in which a given line (counted from 1) is read.
\<close>

definition after_import :: "compilation \<Rightarrow> macros" where
  "after_import c = imported c ''Foundation/Foundation.h'' (predefined c)"

definition selected_replacement :: "compilation \<Rightarrow> token list" where
  "selected_replacement c =
     (if has_attribute c ''swift_private'' then swift_private_attribute else [])"


fun text_of :: "line \<Rightarrow> token list option" where
  "text_of (Text ts) = Some ts"
| "text_of l = None"

definition text_lines :: "line list \<Rightarrow> token list list" where
  "text_lines ls = List.map_filter text_of ls"

subsection \<open>Linkage\<close>

text \<open>
  The declaration is at file scope. An identifier declared there with the storage-class
  specifier \<open>static\<close> has internal linkage, any other has external linkage. A translation
  unit is the header followed by definitions of its own. Every \<open>decl\<close> has an
  initialiser, so it is a definition, and the compiler rejects a unit in which a name is
  defined twice, whatever the storage classes of the two definitions. The linker sees the
  names with external linkage of all units and rejects a name that occurs twice.
\<close>

datatype linkage = Internal | External

fun linkage_of :: "storage_class \<Rightarrow> linkage" where
  "linkage_of Static = Internal"
| "linkage_of Extern = External"
| "linkage_of Unspecified = External"

definition exported_symbols :: "decl list \<Rightarrow> string list" where
  "exported_symbols ds = map declared_name (filter (\<lambda>d. linkage_of (storage d) = External) ds)"

definition private_symbols :: "decl list \<Rightarrow> string list" where
  "private_symbols ds = map declared_name (filter (\<lambda>d. linkage_of (storage d) = Internal) ds)"

record translation_unit =
  settings :: compilation
  own_definitions :: "decl list"

definition repeated :: "string list \<Rightarrow> string option" where
  "repeated xs = find (\<lambda>x. 1 < count_list xs x) xs"

definition unit_declarations :: "translation_unit \<Rightarrow> error + decl list" where
  "unit_declarations u =
     (case compile (settings u) GeneratedAssetSymbols of
        Inl e \<Rightarrow> Inl e
      | Inr ds \<Rightarrow>
          (case repeated (map declared_name (ds @ own_definitions u)) of
             Some n \<Rightarrow> Inl (Redefinition n)
           | None \<Rightarrow> Inr (ds @ own_definitions u)))"

fun is_redefinition :: "error \<Rightarrow> bool" where
  "is_redefinition (Redefinition n) = True"
| "is_redefinition e = False"

fun exports :: "translation_unit list \<Rightarrow> error + string list" where
  "exports [] = Inr []"
| "exports (u # us) =
     (case unit_declarations u of
        Inl e \<Rightarrow> Inl e
      | Inr ds \<Rightarrow>
          (case exports us of Inl e \<Rightarrow> Inl e | Inr xs \<Rightarrow> Inr (exported_symbols ds @ xs)))"

datatype link_error = DoesNotCompile error | DuplicateSymbol string

definition check_symbols :: "string list \<Rightarrow> link_error + string list" where
  "check_symbols xs =
     (case repeated xs of
        Some x \<Rightarrow> Inl (DuplicateSymbol x)
      | None \<Rightarrow> Inr xs)"

definition link :: "translation_unit list \<Rightarrow> link_error + string list" where
  "link us =
     (case exports us of
        Inl e \<Rightarrow> Inl (DoesNotCompile e)
      | Inr xs \<Rightarrow> check_symbols xs)"

text \<open>The declaration every compilation reads from line 10.\<close>

definition header_decl :: "compilation \<Rightarrow> decl" where
  "header_decl c =
     \<lparr>storage = Static, type_name = ''NSString'', const_pointer = True,
      declared_name = ''ACImageNameHighlanderLogo'',
      attributes = (if has_attribute c ''swift_private'' then [''swift_private''] else []),
      initial_value = Some ''HighlanderLogo''\<rparr>"

text \<open>
  Three units that include the header: two with nothing of their own, one that defines
  a constant with external linkage.
\<close>

definition three_units :: "translation_unit list" where
  "three_units =
     [\<lparr>settings = standalone True, own_definitions = []\<rparr>,
      \<lparr>settings = standalone False,
       own_definitions =
         [\<lparr>storage = Unspecified, type_name = ''NSString'', const_pointer = True,
           declared_name = ''AppTitle'', attributes = [],
           initial_value = Some ''Highlander Homes''\<rparr>]\<rparr>,
      \<lparr>settings = standalone True, own_definitions = []\<rparr>]"

section \<open>What every compilation of the header computes\<close>


lemma preprocess_header:
  "preprocess c GeneratedAssetSymbols =
     Inr \<lparr>macro_table = (after_import c)(''AC_SWIFT_PRIVATE'' := None),
          open_groups = [], imported_files = [''Foundation/Foundation.h''],
          emitted =
            [expand ((after_import c)(''AC_SWIFT_PRIVATE'' \<mapsto> selected_replacement c))
               declaration_line]\<rparr>"
  by (simp add: preprocess_def GeneratedAssetSymbols_def initial_def live_def
      after_import_def selected_replacement_def)

lemma expand_declaration_line:
  assumes "undisturbed c"
  shows "expand ((after_import c)(''AC_SWIFT_PRIVATE'' \<mapsto> body)) declaration_line =
     [Ident ''static'', Ident ''NSString'', Punct ''*'', Ident ''const'',
      Ident ''ACImageNameHighlanderLogo''] @ body @
     [Punct ''='', StrLit ''HighlanderLogo'', Punct '';'']"
  using assms
  by (simp add: undisturbed_def identifiers_def after_import_def expand_def
      declaration_line_def)

lemma parse_expanded:
  "parse_declaration
     ([Ident ''static'', Ident ''NSString'', Punct ''*'', Ident ''const'',
       Ident ''ACImageNameHighlanderLogo''] @ selected_replacement c @
      [Punct ''='', StrLit ''HighlanderLogo'', Punct '';'']) =
   Some \<lparr>storage = Static, type_name = ''NSString'', const_pointer = True,
         declared_name = ''ACImageNameHighlanderLogo'',
         attributes = (if has_attribute c ''swift_private'' then [''swift_private''] else []),
         initial_value = Some ''HighlanderLogo''\<rparr>"
  by (simp add: parse_declaration_def selected_replacement_def swift_private_attribute_def)

lemma compile_header:
  assumes "undisturbed c"
  shows "compile c GeneratedAssetSymbols =
     Inr [\<lparr>storage = Static, type_name = ''NSString'', const_pointer = True,
          declared_name = ''ACImageNameHighlanderLogo'',
          attributes = (if has_attribute c ''swift_private'' then [''swift_private''] else []),
          initial_value = Some ''HighlanderLogo''\<rparr>]"
  unfolding compile_def preprocess_header
  by (simp only: sum.case pp_state.simps expand_declaration_line [OF assms]
      parse_all.simps parse_expanded option.case)

lemma value_of_header:
  assumes "undisturbed c"
  shows "value_of c GeneratedAssetSymbols ''ACImageNameHighlanderLogo'' =
     Inr (Some ''HighlanderLogo'')"
  by (simp add: value_of_def compile_header [OF assms])

lemma resource_name_eq: "resource_name = ''HighlanderLogo''"
  by (simp add: resource_name_def quoted_def doc_comment_def)

lemma text_lines_header: "text_lines GeneratedAssetSymbols = [declaration_line]"
  by (simp add: text_lines_def GeneratedAssetSymbols_def)

lemma undisturbed_standalone: "undisturbed (standalone b)"
  by (simp add: undisturbed_def standalone_def identifiers_def)

lemma repeated_None: "repeated xs = None \<longleftrightarrow> distinct xs"
proof -
  have "distinct xs \<longleftrightarrow> (\<forall>x\<in>set xs. count_list xs x \<le> 1)"
  proof (induction xs)
    case Nil
    show ?case by simp
  next
    case (Cons a xs)
    show ?case
    proof (cases "a \<in> set xs")
      case True
      then have "0 < count_list xs a"
        using count_list_0_iff [of xs a] by simp
      with True show ?thesis by auto
    next
      case False
      with Cons.IH show ?thesis by auto
    qed
  qed
  then show ?thesis
    by (auto simp: repeated_def find_None_iff not_less)
qed

lemma repeated_Some: "repeated xs = Some x \<Longrightarrow> x \<in> set xs"
  by (auto simp: repeated_def find_Some_iff)

lemma unit_declarations_header:
  assumes "undisturbed (settings u)"
  shows "unit_declarations u =
     (case repeated (''ACImageNameHighlanderLogo'' # map declared_name (own_definitions u)) of
        Some n \<Rightarrow> Inl (Redefinition n)
      | None \<Rightarrow> Inr (header_decl (settings u) # own_definitions u))"
  by (simp add: unit_declarations_def compile_header [OF assms] header_decl_def
      split: option.splits)

lemma unit_symbols:
  assumes "undisturbed (settings u)" and "unit_declarations u = Inr ds"
  shows "private_symbols ds = ''ACImageNameHighlanderLogo'' # private_symbols (own_definitions u)"
    and "exported_symbols ds = exported_symbols (own_definitions u)"
    and "''ACImageNameHighlanderLogo'' \<notin> set (exported_symbols ds)"
proof -
  from assms have d: "distinct (''ACImageNameHighlanderLogo'' # map declared_name (own_definitions u))"
    and ds: "ds = header_decl (settings u) # own_definitions u"
    by (auto simp: unit_declarations_header repeated_None [symmetric] split: option.splits)
  show "private_symbols ds = ''ACImageNameHighlanderLogo'' # private_symbols (own_definitions u)"
    by (simp add: ds private_symbols_def header_decl_def)
  show e: "exported_symbols ds = exported_symbols (own_definitions u)"
    by (simp add: ds exported_symbols_def header_decl_def)
  from d have "''ACImageNameHighlanderLogo'' \<notin> declared_name ` set (own_definitions u)"
    by simp
  then show "''ACImageNameHighlanderLogo'' \<notin> set (exported_symbols ds)"
    unfolding e by (auto simp: exported_symbols_def)
qed

lemma unit_rejected:
  assumes "undisturbed (settings u)" and "unit_declarations u = Inl e"
  shows "is_redefinition e"
  using assms(2)
  by (auto simp: unit_declarations_header [OF assms(1)] split: option.splits)

lemma exports_never_header:
  assumes "list_all (\<lambda>u. undisturbed (settings u)) us"
  shows "case exports us of
           Inl e \<Rightarrow> is_redefinition e
         | Inr xs \<Rightarrow> ''ACImageNameHighlanderLogo'' \<notin> set xs"
  using assms
proof (induction us)
  case Nil
  show ?case by simp
next
  case (Cons u us)
  from Cons.prems have u: "undisturbed (settings u)"
    and us: "list_all (\<lambda>u. undisturbed (settings u)) us"
    by simp_all
  show ?case
  proof (cases "unit_declarations u")
    case (Inl e)
    with unit_rejected [OF u] show ?thesis by simp
  next
    case (Inr ds)
    from unit_symbols(3) [OF u Inr] Cons.IH [OF us] Inr show ?thesis
      by (auto split: sum.splits)
  qed
qed

lemma exports_own:
  assumes "list_all (\<lambda>u. undisturbed (settings u)) us"
    and "list_all (\<lambda>u. distinct (''ACImageNameHighlanderLogo'' # map declared_name (own_definitions u))) us"
  shows "exports us = Inr (concat (map (\<lambda>u. exported_symbols (own_definitions u)) us))"
  using assms
proof (induction us)
  case Nil
  show ?case by simp
next
  case (Cons u us)
  from Cons.prems have u: "undisturbed (settings u)"
    and d: "repeated (''ACImageNameHighlanderLogo'' # map declared_name (own_definitions u)) = None"
    and ih: "exports us = Inr (concat (map (\<lambda>u. exported_symbols (own_definitions u)) us))"
    using Cons.IH by (simp_all add: repeated_None)
  have "unit_declarations u = Inr (header_decl (settings u) # own_definitions u)"
    by (simp add: unit_declarations_header [OF u] d)
  then show ?case
    by (simp add: ih exported_symbols_def header_decl_def)
qed

section \<open>The claims\<close>

text \<open>
  Claim C1. The exported constant \<open>ACImageNameHighlanderLogo\<close> has the value
  \<open>"HighlanderLogo"\<close>, which is exactly the catalog resource name it was generated from
  (the name the generator quotes in the documentation comment of line 9). This holds in
  every compilation whose macros leave the identifiers of line 10 alone.
\<close>

theorem constant_value:
  assumes "undisturbed c"
  shows "value_of c GeneratedAssetSymbols ''ACImageNameHighlanderLogo'' =
           Inr (Some ''HighlanderLogo'')
         \<and> value_of c GeneratedAssetSymbols ''ACImageNameHighlanderLogo'' =
           Inr (Some resource_name)"
  by (simp add: value_of_header [OF assms] resource_name_eq)

theorem constant_value_witness:
  "undisturbed (standalone True)
   \<and> value_of (standalone True) GeneratedAssetSymbols ''ACImageNameHighlanderLogo'' =
       Inr (Some ''HighlanderLogo'')
   \<and> value_of (standalone True) GeneratedAssetSymbols ''ACImageNameHighlanderLogo'' =
       Inr (Some resource_name)"
  using constant_value [of "standalone True"]
  by (simp add: undisturbed_standalone resource_name_eq)



text \<open>
  Claim C3. The header declares exactly one entity, a named string constant. Line 10 is
  its only line that is neither a directive, a comment nor empty, and what a compilation
  gets from the header is a list of exactly one declaration: the \<open>static\<close>, \<open>const\<close>
  pointer to \<open>NSString\<close> named \<open>ACImageNameHighlanderLogo\<close>, initialised with the
  string \<open>"HighlanderLogo"\<close>, with the attribute \<open>swift_private\<close> where the compiler
  knows it and no attribute otherwise.
\<close>

theorem single_declaration:
  assumes "undisturbed c"
  shows "text_lines GeneratedAssetSymbols = [declaration_line]
         \<and> compile c GeneratedAssetSymbols =
           Inr [\<lparr>storage = Static, type_name = ''NSString'', const_pointer = True,
                declared_name = ''ACImageNameHighlanderLogo'',
                attributes =
                  (if has_attribute c ''swift_private'' then [''swift_private''] else []),
                initial_value = Some ''HighlanderLogo''\<rparr>]"
  by (simp add: text_lines_header compile_header [OF assms])

theorem single_declaration_witness:
  "undisturbed (standalone False)
   \<and> text_lines GeneratedAssetSymbols = [declaration_line]
   \<and> compile (standalone False) GeneratedAssetSymbols =
       Inr [\<lparr>storage = Static, type_name = ''NSString'', const_pointer = True,
            declared_name = ''ACImageNameHighlanderLogo'', attributes = [],
            initial_value = Some ''HighlanderLogo''\<rparr>]"
proof -
  have h: "\<not> has_attribute (standalone False) ''swift_private''"
    by (simp add: standalone_def)
  from single_declaration [of "standalone False"] show ?thesis
    by (simp add: undisturbed_standalone h)
qed

text \<open>
  Claim C5. The identifier of the constant is the fixed prefix \<open>ACImageName\<close> followed by
  the catalog's name of the resource, and that name is also the constant's value.
\<close>

theorem name_from_resource:
  assumes "undisturbed c"
  shows "map_sum id (map (\<lambda>d. (declared_name d, initial_value d)))
           (compile c GeneratedAssetSymbols) =
         Inr [(''ACImageName'' @ resource_name, Some resource_name)]"
  by (simp add: compile_header [OF assms] resource_name_eq)

theorem name_from_resource_witness:
  "undisturbed (standalone True)
   \<and> map_sum id (map (\<lambda>d. (declared_name d, initial_value d)))
        (compile (standalone True) GeneratedAssetSymbols) =
      Inr [(''ACImageName'' @ ''HighlanderLogo'', Some ''HighlanderLogo'')]"
  using name_from_resource [of "standalone True"]
  by (simp add: undisturbed_standalone resource_name_eq)

text \<open>
  Claim C7. Including the header has no effect beyond the one declaration. In every
  compilation preprocessing succeeds with every conditional group closed, one file is
  imported, one line of text is produced, and the macro table at the end is the table
  the import left with \<open>AC_SWIFT_PRIVATE\<close> removed: the header leaves no macro behind.
  Line 10 is the only line of the header that is not a directive, a comment or empty, so
  there is no statement to execute; and where the identifiers of line 10 are left alone,
  the one name declared is \<open>ACImageNameHighlanderLogo\<close>.
\<close>

theorem header_frame:
  "map_sum id (\<lambda>s. (macro_table s, open_groups s, imported_files s, length (emitted s)))
     (preprocess c GeneratedAssetSymbols) =
     Inr ((after_import c)(''AC_SWIFT_PRIVATE'' := None), [], [''Foundation/Foundation.h''], 1)
   \<and> text_lines GeneratedAssetSymbols = [declaration_line]
   \<and> (undisturbed c \<longrightarrow>
        map_sum id (map declared_name) (compile c GeneratedAssetSymbols) =
          Inr [''ACImageNameHighlanderLogo''])"
  by (simp add: preprocess_header text_lines_header compile_header)

theorem header_frame_witness:
  "undisturbed (standalone True)
   \<and> map_sum id (\<lambda>s. (macro_table s, open_groups s, imported_files s, length (emitted s)))
       (preprocess (standalone True) GeneratedAssetSymbols) =
     Inr (Map.empty, [], [''Foundation/Foundation.h''], 1)
   \<and> map_sum id (map declared_name) (compile (standalone True) GeneratedAssetSymbols) =
       Inr [''ACImageNameHighlanderLogo'']"
proof -
  have e: "after_import (standalone True) = Map.empty"
    by (simp add: after_import_def standalone_def)
  from header_frame [of "standalone True"] show ?thesis
    by (simp add: undisturbed_standalone e)
qed

text \<open>
  Claim C8. The value of the constant is not \<open>nil\<close> and not the empty string: it is a
  string of length 14.
\<close>

theorem value_usable_as_key:
  assumes "undisturbed c"
  shows "map_sum id (map_option length)
           (value_of c GeneratedAssetSymbols ''ACImageNameHighlanderLogo'') = Inr (Some 14)
         \<and> value_of c GeneratedAssetSymbols ''ACImageNameHighlanderLogo'' \<noteq> Inr None
         \<and> value_of c GeneratedAssetSymbols ''ACImageNameHighlanderLogo'' \<noteq> Inr (Some [])"
  by (simp add: value_of_header [OF assms])

theorem value_usable_as_key_witness:
  "undisturbed (standalone False)
   \<and> map_sum id (map_option length)
        (value_of (standalone False) GeneratedAssetSymbols ''ACImageNameHighlanderLogo'') =
      Inr (Some 14)"
  using value_usable_as_key [of "standalone False"]
  by (simp add: undisturbed_standalone)

text \<open>
  Claim C9. The capability switch does not interfere with the value. For two compilations,
  one whose compiler reports \<open>swift_private\<close> and one whose compiler does not, the value of
  \<open>ACImageNameHighlanderLogo\<close> is the same string \<open>"HighlanderLogo"\<close>; the two
  declarations differ in their attributes (\<open>swift_private\<close> against none) and in nothing
  else.
\<close>

theorem value_independent_of_capability:
  assumes "undisturbed c1" and "undisturbed c2"
    and "has_attribute c1 ''swift_private''" and "\<not> has_attribute c2 ''swift_private''"
  shows "value_of c1 GeneratedAssetSymbols ''ACImageNameHighlanderLogo'' =
           Inr (Some ''HighlanderLogo'')
         \<and> value_of c2 GeneratedAssetSymbols ''ACImageNameHighlanderLogo'' =
           value_of c1 GeneratedAssetSymbols ''ACImageNameHighlanderLogo''
         \<and> map_sum id (map attributes) (compile c1 GeneratedAssetSymbols) =
           Inr [[''swift_private'']]
         \<and> map_sum id (map attributes) (compile c2 GeneratedAssetSymbols) = Inr [[]]
         \<and> map_sum id (map (\<lambda>d. d\<lparr>attributes := []\<rparr>)) (compile c2 GeneratedAssetSymbols) =
           map_sum id (map (\<lambda>d. d\<lparr>attributes := []\<rparr>)) (compile c1 GeneratedAssetSymbols)"
  using assms(3,4)
  by (simp add: value_of_header [OF assms(1)] value_of_header [OF assms(2)]
      compile_header [OF assms(1)] compile_header [OF assms(2)])

theorem value_independent_of_capability_witness:
  "undisturbed (standalone True) \<and> undisturbed (standalone False)
   \<and> has_attribute (standalone True) ''swift_private''
   \<and> \<not> has_attribute (standalone False) ''swift_private''
   \<and> value_of (standalone False) GeneratedAssetSymbols ''ACImageNameHighlanderLogo'' =
       value_of (standalone True) GeneratedAssetSymbols ''ACImageNameHighlanderLogo''
   \<and> value_of (standalone True) GeneratedAssetSymbols ''ACImageNameHighlanderLogo'' =
       Inr (Some ''HighlanderLogo'')"
proof -
  have u1: "undisturbed (standalone True)" and u2: "undisturbed (standalone False)"
    by (rule undisturbed_standalone)+
  have h1: "has_attribute (standalone True) ''swift_private''"
    by (simp add: standalone_def)
  have h2: "\<not> has_attribute (standalone False) ''swift_private''"
    by (simp add: standalone_def)
  from value_independent_of_capability [OF u1 u2 h1 h2] u1 u2 h1 h2
  show ?thesis by simp
qed

text \<open>
  Claim C10. The constant is declared \<open>static\<close>, so it has internal linkage. Take any
  number of translation units that include the header. A unit is rejected by the compiler
  only for a redefinition in it; every unit that compiles has the name
  \<open>ACImageNameHighlanderLogo\<close> among its private symbols and not among the symbols it
  exports. So no unit exports a symbol of that name, the linker never reports it as a
  duplicate, and where no unit redefines a name the exported symbols and the outcome of
  linking are those of the units' own definitions alone.
\<close>

theorem internal_linkage:
  assumes "list_all (\<lambda>u. undisturbed (settings u)) us"
  shows "list_all
           (\<lambda>u. case unit_declarations u of
                  Inl e \<Rightarrow> is_redefinition e
                | Inr ds \<Rightarrow>
                    ''ACImageNameHighlanderLogo'' \<in> set (private_symbols ds)
                    \<and> ''ACImageNameHighlanderLogo'' \<notin> set (exported_symbols ds)) us
         \<and> (case exports us of
               Inl e \<Rightarrow> is_redefinition e
             | Inr xs \<Rightarrow> ''ACImageNameHighlanderLogo'' \<notin> set xs)
         \<and> link us \<noteq> Inl (DuplicateSymbol ''ACImageNameHighlanderLogo'')
         \<and> (list_all
               (\<lambda>u. distinct (''ACImageNameHighlanderLogo'' # map declared_name (own_definitions u)))
               us \<longrightarrow>
             exports us = Inr (concat (map (\<lambda>u. exported_symbols (own_definitions u)) us))
             \<and> link us =
               check_symbols (concat (map (\<lambda>u. exported_symbols (own_definitions u)) us)))"
proof (intro conjI impI)
  show "list_all
          (\<lambda>u. case unit_declarations u of
                 Inl e \<Rightarrow> is_redefinition e
               | Inr ds \<Rightarrow>
                   ''ACImageNameHighlanderLogo'' \<in> set (private_symbols ds)
                   \<and> ''ACImageNameHighlanderLogo'' \<notin> set (exported_symbols ds)) us"
    unfolding list_all_iff
  proof
    fix u
    assume "u \<in> set us"
    with assms have u: "undisturbed (settings u)"
      by (simp add: list_all_iff)
    show "case unit_declarations u of
            Inl e \<Rightarrow> is_redefinition e
          | Inr ds \<Rightarrow>
              ''ACImageNameHighlanderLogo'' \<in> set (private_symbols ds)
              \<and> ''ACImageNameHighlanderLogo'' \<notin> set (exported_symbols ds)"
    proof (cases "unit_declarations u")
      case (Inl e)
      with unit_rejected [OF u] show ?thesis by simp
    next
      case (Inr ds)
      with unit_symbols(1,3) [OF u Inr] show ?thesis by simp
    qed
  qed
next
  show "case exports us of
          Inl e \<Rightarrow> is_redefinition e
        | Inr xs \<Rightarrow> ''ACImageNameHighlanderLogo'' \<notin> set xs"
    by (rule exports_never_header [OF assms])
next
  show "link us \<noteq> Inl (DuplicateSymbol ''ACImageNameHighlanderLogo'')"
  proof
    assume l: "link us = Inl (DuplicateSymbol ''ACImageNameHighlanderLogo'')"
    then obtain xs where xs: "exports us = Inr xs"
      and r: "repeated xs = Some ''ACImageNameHighlanderLogo''"
      by (auto simp: link_def check_symbols_def split: sum.splits option.splits)
    from exports_never_header [OF assms] xs
    have "''ACImageNameHighlanderLogo'' \<notin> set xs" by simp
    with repeated_Some [OF r] show False by simp
  qed
next
  assume d: "list_all
      (\<lambda>u. distinct (''ACImageNameHighlanderLogo'' # map declared_name (own_definitions u))) us"
  show "exports us = Inr (concat (map (\<lambda>u. exported_symbols (own_definitions u)) us))"
    by (rule exports_own [OF assms d])
  then show "link us =
      check_symbols (concat (map (\<lambda>u. exported_symbols (own_definitions u)) us))"
    by (simp add: link_def)
qed

theorem internal_linkage_witness:
  "list_all (\<lambda>u. undisturbed (settings u)) three_units
   \<and> list_all
       (\<lambda>u. distinct (''ACImageNameHighlanderLogo'' # map declared_name (own_definitions u)))
       three_units
   \<and> exports three_units = Inr [''AppTitle'']
   \<and> link three_units = Inr [''AppTitle'']
   \<and> link three_units \<noteq> Inl (DuplicateSymbol ''ACImageNameHighlanderLogo'')"
proof -
  have u: "list_all (\<lambda>u. undisturbed (settings u)) three_units"
    by (simp add: three_units_def undisturbed_standalone)
  have d: "list_all
      (\<lambda>u. distinct (''ACImageNameHighlanderLogo'' # map declared_name (own_definitions u)))
      three_units"
    by (simp add: three_units_def)
  have x: "concat (map (\<lambda>u. exported_symbols (own_definitions u)) three_units) = [''AppTitle'']"
    by (simp add: three_units_def exported_symbols_def)
  from internal_linkage [OF u] d u show ?thesis
    by (simp add: x check_symbols_def repeated_def)
qed

end
